theory Spec2Isabelle
  imports Main "HOL-Library.AList"
begin

section \<open>Values shared by the functions of fn.go\<close>

text \<open>
  Go strings are byte sequences; they are modelled as \<^typ>\<open>string\<close> (lists of 8-bit
  characters). Go's \<open>int\<close> is taken to be 64 bits wide and is modelled as \<^typ>\<open>int\<close>,
  with the wrap-around written out (\<open>add64\<close>, \<open>sub64\<close>) where an operation of the
  source can overflow. An \<open>error\<close> is modelled by its textual form (the result of its
  \<open>Error()\<close> method); the nil error is \<open>None\<close>.
\<close>

type_synonym error = string

datatype panic_value =
    PanicString string
  | IndexOutOfRange int nat
  | NilDereference

definition wrap64 :: "int \<Rightarrow> int" where
  "wrap64 x = (x + 2 ^ 63) mod 2 ^ 64 - 2 ^ 63"

definition add64 :: "int \<Rightarrow> int \<Rightarrow> int" where
  "add64 a b = wrap64 (a + b)"

definition sub64 :: "int \<Rightarrow> int \<Rightarrow> int" where
  "sub64 a b = wrap64 (a - b)"

text \<open>\<open>i - 1\<close> on an \<open>int\<close>: it wraps at the least \<open>int\<close>, and only there.\<close>

definition dec64 :: "int \<Rightarrow> int" where
  "dec64 i = (if i = - (2 ^ 63) then 2 ^ 63 - 1 else i - 1)"

text \<open>Reading \<open>xs[i]\<close>: a run-time panic when the index is out of range.\<close>

definition slice_at :: "'a list \<Rightarrow> int \<Rightarrow> panic_value + 'a" where
  "slice_at xs i =
     (if 0 \<le> i \<and> i < int (length xs) then Inr (xs ! nat i)
      else Inl (IndexOutOfRange i (length xs)))"

text \<open>The constants of fn.go.\<close>

definition annotationKeyCompositionResourceName :: string where
  "annotationKeyCompositionResourceName =
     ''gotemplating.fn.crossplane.io/composition-resource-name''"

definition annotationKeyReady :: string where
  "annotationKeyReady = ''gotemplating.fn.crossplane.io/ready''"

definition metaApiVersion :: string where
  "metaApiVersion = ''meta.gotemplating.fn.crossplane.io/v1alpha1''"

section \<open>Functions of the Go standard library called by fn.go\<close>

subsection \<open>White space\<close>

text \<open>
  \<open>unicode.IsSpace\<close> and the scanner of package \<open>fmt\<close> accept the same code points:
  U+0009 to U+000D, U+0020, U+0085, U+00A0, U+1680, U+2000 to U+200A, U+2028, U+2029,
  U+202F, U+205F and U+3000. Go decodes a string as UTF-8 and rejects over-long forms, so
  the next rune of a text is one of these exactly when the text starts with the UTF-8
  encoding of one of them, and the last rune is one of them exactly when the text ends
  with such an encoding.
\<close>

definition space_runes :: "string list" where
  "space_runes =
     [[CHR 0x09], [CHR 0x0A], [CHR 0x0B], [CHR 0x0C], [CHR 0x0D], [CHR 0x20],
      [CHR 0xC2, CHR 0x85], [CHR 0xC2, CHR 0xA0],
      [CHR 0xE1, CHR 0x9A, CHR 0x80],
      [CHR 0xE2, CHR 0x80, CHR 0x80], [CHR 0xE2, CHR 0x80, CHR 0x81],
      [CHR 0xE2, CHR 0x80, CHR 0x82], [CHR 0xE2, CHR 0x80, CHR 0x83],
      [CHR 0xE2, CHR 0x80, CHR 0x84], [CHR 0xE2, CHR 0x80, CHR 0x85],
      [CHR 0xE2, CHR 0x80, CHR 0x86], [CHR 0xE2, CHR 0x80, CHR 0x87],
      [CHR 0xE2, CHR 0x80, CHR 0x88], [CHR 0xE2, CHR 0x80, CHR 0x89],
      [CHR 0xE2, CHR 0x80, CHR 0x8A],
      [CHR 0xE2, CHR 0x80, CHR 0xA8], [CHR 0xE2, CHR 0x80, CHR 0xA9],
      [CHR 0xE2, CHR 0x80, CHR 0xAF],
      [CHR 0xE2, CHR 0x81, CHR 0x9F],
      [CHR 0xE3, CHR 0x80, CHR 0x80]]"

text \<open>The first bytes of the encodings of the white-space runes.\<close>

definition space_lead_bytes :: "char list" where
  "space_lead_bytes =
     [CHR 0x09, CHR 0x0A, CHR 0x0B, CHR 0x0C, CHR 0x0D, CHR 0x20,
      CHR 0xC2, CHR 0xE1, CHR 0xE2, CHR 0xE3]"

definition leading_space :: "string \<Rightarrow> string option" where
  "leading_space s = find (\<lambda>e. take (length e) s = e) space_runes"

definition trailing_space :: "string \<Rightarrow> string option" where
  "trailing_space s = find (\<lambda>e. drop (length s - length e) s = e) space_runes"

lemma find_space_runes_nonempty:
  "find P space_runes = Some e \<Longrightarrow> e \<noteq> []"
  by (auto simp: space_runes_def split: if_splits)

lemma leading_space_shorter:
  assumes "leading_space s = Some e"
  shows "length s - length e < length s"
proof -
  have "e \<noteq> []" using assms find_space_runes_nonempty by (simp add: leading_space_def)
  moreover have "take (length e) s = e"
    using assms by (auto simp: leading_space_def find_Some_iff)
  ultimately have "s \<noteq> []" by auto
  with \<open>e \<noteq> []\<close> show ?thesis by (cases s; cases e) auto
qed

lemma trailing_space_shorter:
  assumes "trailing_space s = Some e"
  shows "length s - length e < length s"
proof -
  have "e \<noteq> []" using assms find_space_runes_nonempty by (simp add: trailing_space_def)
  moreover have "drop (length s - length e) s = e"
    using assms by (auto simp: trailing_space_def find_Some_iff)
  ultimately have "s \<noteq> []" by auto
  with \<open>e \<noteq> []\<close> show ?thesis by (cases s; cases e) auto
qed

text \<open>\<open>strings.TrimSpace\<close>: leading white space is removed first, then trailing.\<close>

function TrimLeftSpace :: "string \<Rightarrow> string" where
  "TrimLeftSpace s =
     (case leading_space s of
        None \<Rightarrow> s
      | Some e \<Rightarrow> TrimLeftSpace (drop (length e) s))"
  by pat_completeness auto
termination
  by (relation "measure length") (auto dest!: leading_space_shorter)

function TrimRightSpace :: "string \<Rightarrow> string" where
  "TrimRightSpace s =
     (case trailing_space s of
        None \<Rightarrow> s
      | Some e \<Rightarrow> TrimRightSpace (take (length s - length e) s))"
  by pat_completeness auto
termination
  by (relation "measure length") (auto dest!: trailing_space_shorter)

declare TrimLeftSpace.simps [simp del] TrimRightSpace.simps [simp del]

definition TrimSpace :: "string \<Rightarrow> string" where
  "TrimSpace s = TrimRightSpace (TrimLeftSpace s)"

subsection \<open>Searching and formatting\<close>

text \<open>\<open>strings.Index\<close>: the index of the first occurrence of \<open>sub\<close> in \<open>s\<close>, or -1.\<close>

fun Index :: "string \<Rightarrow> string \<Rightarrow> int" where
  "Index [] sub = (if sub = [] then 0 else - 1)"
| "Index (c # s) sub =
     (if take (length sub) (c # s) = sub then 0
      else (let r = Index s sub in if r = - 1 then - 1 else r + 1))"


text \<open>\<open>strings.Split(s, "\n")\<close>: the lines of a text.\<close>

fun Split_newline :: "string \<Rightarrow> string list" where
  "Split_newline [] = [[]]"
| "Split_newline (c # cs) =
     (if c = CHR 0x0A then [] # Split_newline cs
      else (case Split_newline cs of l # ls \<Rightarrow> (c # l) # ls | [] \<Rightarrow> [[c]]))"

text \<open>The verb \<open>%d\<close> of \<open>fmt.Sprintf\<close>: a number in decimal, with \<open>-\<close> when negative.\<close>

definition digit_char :: "nat \<Rightarrow> char" where
  "digit_char d = char_of (48 + d)"

function decimal :: "int \<Rightarrow> string" where
  "decimal n =
     (if n < 10 then [digit_char (nat n)]
      else decimal (n div 10) @ [digit_char (nat (n mod 10))])"
  by pat_completeness auto
termination
  by (relation "measure nat") auto

declare decimal.simps [simp del]

definition Sprintf_d :: "int \<Rightarrow> string" where
  "Sprintf_d i = (if i < 0 then CHR ''-'' # decimal (- i) else decimal i)"

subsection \<open>Scanning: \<open>fmt.Sscanf\<close>\<close>

text \<open>
  The scanner of package \<open>fmt\<close>, for a format made of literal ASCII characters, single
  blanks and the verb \<open>%d\<close> with one \<open>int\<close> operand, which is all that the format
  string of the source uses. A failure inside the scanner is a panic that \<open>Sscanf\<close>
  recovers and returns as its error, together with the number of operands scanned so far.
\<close>

datatype scan_error =
    UnexpectedEOF
  | EOF
  | InputMismatch
  | ExpectedSpace
  | NewlineInInput
  | UnexpectedNewline
  | ExpectedInteger
  | SyntaxError
  | ValueOutOfRange
  | BadVerb
  | TooFewOperands
  | TooManyOperands

definition newline :: string where
  "newline = [CHR 0x0A]"

text \<open>White space other than a newline is skipped; the first other rune is put back.\<close>

function skip_blanks :: "string \<Rightarrow> string" where
  "skip_blanks s =
     (case leading_space s of
        None \<Rightarrow> s
      | Some e \<Rightarrow> if e = newline then s else skip_blanks (drop (length e) s))"
  by pat_completeness auto
termination
  by (relation "measure length") (auto dest!: leading_space_shorter)

text \<open>
  A blank of the format: the input has a white-space rune that is not a newline, or is at
  its end; the white space that follows is skipped up to a newline.
\<close>

definition format_space :: "string \<Rightarrow> scan_error + string" where
  "format_space inp =
     (case leading_space inp of
        None \<Rightarrow> if inp = [] then Inr [] else Inl ExpectedSpace
      | Some e \<Rightarrow> if e = newline then Inl NewlineInInput
                  else Inr (skip_blanks (drop (length e) inp)))"

text \<open>\<open>SkipSpace\<close>, as used before a verb: a newline is an error here.\<close>

function SkipSpace :: "string \<Rightarrow> scan_error + string" where
  "SkipSpace s =
     (case leading_space s of
        None \<Rightarrow> Inr s
      | Some e \<Rightarrow> if e = newline then Inl UnexpectedNewline else SkipSpace (drop (length e) s))"
  by pat_completeness auto
termination
  by (relation "measure length") (auto dest!: leading_space_shorter)

declare skip_blanks.simps [simp del] SkipSpace.simps [simp del]

definition is_digit :: "char \<Rightarrow> bool" where
  "is_digit c = (48 \<le> (of_char c :: nat) \<and> (of_char c :: nat) \<le> 57)"

definition digit_value :: "char \<Rightarrow> nat" where
  "digit_value c = (of_char c :: nat) - 48"

definition decimal_value :: "string \<Rightarrow> int" where
  "decimal_value ds = foldl (\<lambda>a c. 10 * a + int (digit_value c)) 0 ds"

text \<open>\<open>strconv.ParseInt(tok, 10, 64)\<close>: an optional sign, digits, a value that fits 64 bits.\<close>

definition ParseInt :: "string \<Rightarrow> scan_error + int" where
  "ParseInt tok =
     (let neg = (tok \<noteq> [] \<and> hd tok = CHR ''-'');
          ds = (if tok \<noteq> [] \<and> (hd tok = CHR ''+'' \<or> hd tok = CHR ''-'') then tl tok else tok)
      in if ds = [] \<or> \<not> list_all is_digit ds then Inl SyntaxError
         else if \<not> neg \<and> decimal_value ds \<ge> 2 ^ 63 then Inl ValueOutOfRange
         else if neg \<and> decimal_value ds > 2 ^ 63 then Inl ValueOutOfRange
         else Inr (if neg then - decimal_value ds else decimal_value ds))"

text \<open>
  \<open>scanInt\<close> for the verb \<open>%d\<close>: white space is skipped, a sign is accepted, then one or
  more decimal digits; the token is converted by \<open>ParseInt\<close>.
\<close>

definition scanInt :: "string \<Rightarrow> scan_error + (int \<times> string)" where
  "scanInt inp =
     (case SkipSpace inp of
        Inl e \<Rightarrow> Inl e
      | Inr s1 \<Rightarrow>
          if s1 = [] then Inl EOF
          else
            (let sgn = (if hd s1 = CHR ''+'' \<or> hd s1 = CHR ''-'' then [hd s1] else []);
                 s2 = drop (length sgn) s1
             in if s2 = [] then Inl EOF
                else if \<not> is_digit (hd s2) then Inl ExpectedInteger
                else
                  (case ParseInt (sgn @ takeWhile is_digit s2) of
                     Inl e \<Rightarrow> Inl e
                   | Inr v \<Rightarrow> Inr (v, dropWhile is_digit s2))))"

text \<open>
  \<open>doScanf\<close> walks the format. The result is the list of the values scanned and the error,
  if any.
\<close>

fun doScanf :: "string \<Rightarrow> string \<Rightarrow> int list \<Rightarrow> int list \<times> scan_error option" where
  "doScanf [] inp acc = (acc, None)"
| "doScanf (c # fs) inp acc =
     (if c = CHR ''%'' then
        (case fs of
           [] \<Rightarrow> (acc, Some BadVerb)
         | v # fs' \<Rightarrow>
             if v \<noteq> CHR ''d'' then (acc, Some BadVerb)
             else
               (case SkipSpace inp of
                  Inl e \<Rightarrow> (acc, Some e)
                | Inr inp1 \<Rightarrow>
                    if acc \<noteq> [] then (acc, Some TooFewOperands)
                    else
                      (case scanInt inp1 of
                         Inl e \<Rightarrow> (acc, Some e)
                       | Inr (x, inp2) \<Rightarrow> doScanf fs' inp2 (acc @ [x]))))
      else if c = CHR '' '' then
        (case format_space inp of
           Inl e \<Rightarrow> (acc, Some e)
         | Inr inp1 \<Rightarrow> doScanf fs inp1 acc)
      else
        (case inp of
           [] \<Rightarrow> (acc, Some UnexpectedEOF)
         | x # inp' \<Rightarrow> if x = c then doScanf fs inp' acc else (acc, Some InputMismatch)))"

declare doScanf.simps [simp del]

text \<open>
  \<open>fmt.Sscanf(str, format, &v)\<close> with one \<open>int\<close> operand: the number of operands scanned,
  the error, and the value of \<open>v\<close> afterwards (it keeps its zero value when nothing was
  stored).
\<close>

definition Sscanf :: "string \<Rightarrow> string \<Rightarrow> nat \<times> scan_error option \<times> int" where
  "Sscanf str format =
     (case doScanf format str [] of
        (vals, err) \<Rightarrow>
          (length vals,
           (case err of
              Some e \<Rightarrow> Some e
            | None \<Rightarrow> if vals = [] then Some TooManyOperands else None),
           (case vals of [] \<Rightarrow> 0 | v # _ \<Rightarrow> v)))"

section \<open>moveToNextDoc\<close>

text \<open>
  The loop variable \<open>i\<close> stays between \<open>startLine\<close> and \<open>len(lines) + 1\<close>, so \<open>i++\<close>
  cannot overflow. \<open>i - 1\<close> wraps at the least \<open>int\<close>, to the greatest one.
\<close>

function moveToNextDoc_loop :: "string list \<Rightarrow> int \<Rightarrow> int \<Rightarrow> panic_value + int" where
  "moveToNextDoc_loop lines startLine i =
     (if i \<le> int (length lines) then
        (case slice_at lines (dec64 i) of
           Inl p \<Rightarrow> Inl p
         | Inr l \<Rightarrow>
             if TrimSpace l = ''---'' \<and> i > startLine then Inr i
             else moveToNextDoc_loop lines startLine (i + 1))
      else Inr startLine)"
  by pat_completeness auto
termination
  by (relation "measure (\<lambda>(lines, startLine, i). nat (int (length lines) + 1 - i))") auto

declare moveToNextDoc_loop.simps [simp del]

definition moveToNextDoc :: "string list \<Rightarrow> int \<Rightarrow> panic_value + int" where
  "moveToNextDoc lines startLine = moveToNextDoc_loop lines startLine startLine"

text \<open>Line \<open>i\<close> (counted from 1) of the text is a document separator.\<close>

definition is_separator_line :: "string list \<Rightarrow> int \<Rightarrow> bool" where
  "is_separator_line L i =
     (1 \<le> i \<and> i \<le> int (length L) \<and> TrimSpace (L ! nat (i - 1)) = ''---'')"

text \<open>
  The indices at which the loop reads \<open>lines\<close>, in the order of the reads; the last one is
  the read that panics, if one does.
\<close>

function moveToNextDoc_reads :: "string list \<Rightarrow> int \<Rightarrow> int \<Rightarrow> int list" where
  "moveToNextDoc_reads lines startLine i =
     (if i \<le> int (length lines) then
        dec64 i #
        (case slice_at lines (dec64 i) of
           Inl p \<Rightarrow> []
         | Inr l \<Rightarrow>
             if TrimSpace l = ''---'' \<and> i > startLine then []
             else moveToNextDoc_reads lines startLine (i + 1))
      else [])"
  by pat_completeness auto
termination
  by (relation "measure (\<lambda>(lines, startLine, i). nat (int (length lines) + 1 - i))") auto

declare moveToNextDoc_reads.simps [simp del]

section \<open>getYamlErrorContextFromErr\<close>

record YamlErrorContext =
  RelLine :: int
  AbsLine :: int
  Message :: string
  Context :: string

text \<open>The zero value \<open>YamlErrorContext{}\<close>.\<close>

definition zero_YamlErrorContext :: YamlErrorContext where
  "zero_YamlErrorContext = \<lparr>RelLine = 0, AbsLine = 0, Message = [], Context = []\<rparr>"

definition yaml_line_format :: string where
  "yaml_line_format = ''error converting YAML to JSON: yaml: line %d:''"

text \<open>\<open>fmt.Sprintf("error converting YAML to JSON: yaml: line %d:", relLine)\<close>.\<close>

definition yaml_line_prefix :: "int \<Rightarrow> string" where
  "yaml_line_prefix relLine =
     ''error converting YAML to JSON: yaml: line '' @ Sprintf_d relLine @ '':''"

text \<open>
  \<open>err.Error()\<close> on the nil error is a nil dereference. \<open>startLine + relLine\<close> and
  \<open>absLine - 1\<close> are 64-bit operations.
\<close>

definition getYamlErrorContextFromErr ::
  "error option \<Rightarrow> int \<Rightarrow> string list \<Rightarrow> panic_value + YamlErrorContext" where
  "getYamlErrorContextFromErr err startLine lines =
     (case err of
        None \<Rightarrow> Inl NilDereference
      | Some errStr \<Rightarrow>
          (case Sscanf errStr yaml_line_format of
             (n, scanErr, relLine) \<Rightarrow>
               (let errMsg =
                      (if scanErr = None \<and> n = 1 then
                         (let prefix = yaml_line_prefix relLine;
                              idx = Index errStr prefix
                          in if idx \<noteq> - 1 then TrimSpace (drop (nat idx + length prefix) errStr)
                             else [])
                       else [])
                in if scanErr = None \<and> n = 1 then
                     (let absLine = add64 startLine relLine
                      in if sub64 absLine 1 < int (length lines) \<and> sub64 absLine 1 \<ge> 0 then
                           Inr \<lparr>RelLine = relLine, AbsLine = absLine, Message = errMsg,
                                Context = lines ! nat (sub64 absLine 1)\<rparr>
                         else Inr zero_YamlErrorContext)
                   else Inr zero_YamlErrorContext)))"

section \<open>The function SDK, as far as RunFunction uses it\<close>

text \<open>
  \<open>errors.Wrap(err, msg)\<close>: an error whose text is the message, a colon and the text of the
  wrapped error. \<open>%v\<close> prints a panic value as its text.
\<close>

definition Wrap :: "error \<Rightarrow> string \<Rightarrow> error" where
  "Wrap err msg = msg @ '': '' @ err"

fun fmt_v :: "panic_value \<Rightarrow> string" where
  "fmt_v (PanicString s) = s"
| "fmt_v (IndexOutOfRange i n) =
     (if i < 0 then ''runtime error: index out of range ['' @ Sprintf_d i @ '']''
      else ''runtime error: index out of range ['' @ Sprintf_d i @ ''] with length ''
             @ Sprintf_d (int n))"
| "fmt_v NilDereference = ''runtime error: invalid memory address or nil pointer dereference''"

datatype Severity = SEVERITY_UNSPECIFIED | SEVERITY_FATAL | SEVERITY_WARNING | SEVERITY_NORMAL

record Result =
  severity :: Severity
  message :: string

text \<open>
  The response, as far as RunFunction reads and writes it: its results and the pointer to
  its desired state (\<open>None\<close> is the nil pointer). What the desired state holds is left to
  the SDK and the decoder.
\<close>

record 'd RunFunctionResponse =
  Results :: "Result list"
  Desired :: "'d option"

text \<open>\<open>response.Fatal(rsp, err)\<close> adds a fatal result with the text of the error.\<close>

definition Fatal :: "'d RunFunctionResponse \<Rightarrow> error \<Rightarrow> 'd RunFunctionResponse" where
  "Fatal rsp err = rsp\<lparr>Results := Results rsp @ [\<lparr>severity = SEVERITY_FATAL, message = err\<rparr>]\<rparr>"

text \<open>The input of the function: what RunFunction reads of \<open>v1beta1.GoTemplate\<close>.\<close>

record GoTemplate =
  Delims :: "(string \<times> string) option"
  Options :: "string list option"

text \<open>
  What RunFunction calls outside fn.go, as parameters: the SDK (\<open>response.To\<close>,
  \<open>request.GetInput\<close>), the template source getter and the template constructor of this
  repository, package \<open>text/template\<close> (\<open>Parse\<close>, \<open>Option\<close>, \<open>Execute\<close>), the JSON
  encoders (\<open>protojson.Marshal\<close>, \<open>json.Unmarshal\<close>) and the YAML-or-JSON decoder.
  \<open>Option\<close> sets the options on the template it is given, one after the other, and
  panics on a name it does not know: its result is the template as the call leaves it and
  the value of the panic, if there was one. The other calls are taken to return.
  \<open>decoder.Decode(&rsp)\<close> is given the pointer to the response: it writes into the
  response, may fail after writing, and may leave the pointer nil (\<open>None\<close>).
\<close>

record ('req, 'tmpl, 'v, 'd) collaborators =
  response_To :: "'req \<Rightarrow> 'd RunFunctionResponse"
  GetInput :: "'req \<Rightarrow> error + GoTemplate"
  NewTemplateSourceGetter :: "'req \<Rightarrow> GoTemplate \<Rightarrow> error + string"
  Parse :: "(string \<times> string) option \<Rightarrow> string \<Rightarrow> error + 'tmpl"
  Option :: "'tmpl \<Rightarrow> string list \<Rightarrow> 'tmpl \<times> panic_value option"
  Marshal :: "'req \<Rightarrow> error + string"
  Unmarshal :: "string \<Rightarrow> error + (string \<rightharpoonup> 'v)"
  Execute :: "'tmpl \<Rightarrow> (string \<rightharpoonup> 'v) \<Rightarrow> error + string"
  Decode ::
    "string \<Rightarrow> 'd RunFunctionResponse \<Rightarrow> 'd RunFunctionResponse option \<times> error option"

section \<open>convertToMap\<close>

definition convertToMap ::
  "('req, 'tmpl, 'v, 'd) collaborators \<Rightarrow> 'req \<Rightarrow> error + (string \<rightharpoonup> 'v)" where
  "convertToMap E req =
     (case Marshal E req of
        Inl err \<Rightarrow> Inl (Wrap err ''cannot marshal request from proto to json'')
      | Inr jReq \<Rightarrow>
          (case Unmarshal E jReq of
             Inl err \<Rightarrow> Inl (Wrap err ''cannot unmarshal json to map[string]any'')
           | Inr mReq \<Rightarrow>
               (case mReq ''extraResources'' of
                  Some _ \<Rightarrow> Inr mReq
                | None \<Rightarrow>
                    (case mReq ''requiredResources'' of
                       Some r \<Rightarrow> Inr (mReq(''extraResources'' \<mapsto> r))
                     | None \<Rightarrow> Inr mReq))))"

section \<open>safeApplyTemplateOptions\<close>

text \<open>
  The body calls \<open>templ.Option(options...)\<close>, which works on the template in place, and
  returns nil. The deferred function runs in every case; \<open>recover()\<close> gives it the value
  of the panic, if there was one, and ends the panic; the error it stores is then the
  result. The template is returned as the call left it.
\<close>

definition safeApplyTemplateOptions ::
  "('tmpl \<Rightarrow> string list \<Rightarrow> 'tmpl \<times> panic_value option) \<Rightarrow> 'tmpl \<Rightarrow> string list
     \<Rightarrow> panic_value + ('tmpl \<times> error option)" where
  "safeApplyTemplateOptions option templ options =
     (case option templ options of
        (templ', rec) \<Rightarrow>
          (let err = (case rec of
                        Some p \<Rightarrow>
                          Some (''panic occurred while applying template options: '' @ fmt_v p)
                      | None \<Rightarrow> None)
           in Inr (templ', err)))"

section \<open>RunFunction\<close>

text \<open>
  Where RunFunction returns, it returns the response and a nil error. The calls of the
  logger do not change the response and are left out, but for what the last of them
  evaluates: \<open>len(rsp.Desired.Resources)\<close> is a nil dereference when the response or its
  desired state is nil, as is \<open>response.Fatal\<close> on a nil response.
\<close>

definition RunFunction ::
  "('req, 'tmpl, 'v, 'd) collaborators \<Rightarrow> 'req \<Rightarrow> panic_value + 'd RunFunctionResponse" where
  "RunFunction E req =
     (let rsp = response_To E req in
      case GetInput E req of
        Inl err \<Rightarrow>
          Inr (Fatal rsp (Wrap err ''cannot get Function input from *v1.RunFunctionRequest''))
      | Inr inp \<Rightarrow>
      (case NewTemplateSourceGetter E req inp of
        Inl err \<Rightarrow> Inr (Fatal rsp (Wrap err ''invalid function input''))
      | Inr templates \<Rightarrow>
      (case Parse E (Delims inp) templates of
        Inl err \<Rightarrow>
          Inr (Fatal rsp
                 (Wrap err ''invalid function input: cannot parse the provided templates''))
      | Inr tmpl \<Rightarrow>
      (case (case Options inp of
               None \<Rightarrow> Inr (tmpl, None)
             | Some options \<Rightarrow> safeApplyTemplateOptions (Option E) tmpl options) of
        Inl p \<Rightarrow> Inl p
      | Inr (_, Some err) \<Rightarrow> Inr (Fatal rsp (Wrap err ''cannot apply template options''))
      | Inr (tmpl', None) \<Rightarrow>
      (case convertToMap E req of
        Inl err \<Rightarrow> Inr (Fatal rsp (Wrap err ''cannot convert request to map''))
      | Inr reqMap \<Rightarrow>
      (case Execute E tmpl' reqMap of
        Inl err \<Rightarrow> Inr (Fatal rsp (Wrap err ''cannot execute template''))
      | Inr data \<Rightarrow>
      (case Decode E data rsp of
        (None, _) \<Rightarrow> Inl NilDereference
      | (Some rsp', Some err) \<Rightarrow> Inr (Fatal rsp' (Wrap err ''cannot decode manifest''))
      | (Some rsp', None) \<Rightarrow>
          (case Desired rsp' of
             None \<Rightarrow> Inl NilDereference
           | Some _ \<Rightarrow> Inr rsp'))))))))"

section \<open>An instance of the collaborators\<close>

text \<open>
  \<open>Option\<close> of package \<open>text/template\<close>: the options are set one after the other; the
  empty name and every name other than \<open>missingkey=invalid\<close>, \<open>missingkey=default\<close>,
  \<open>missingkey=zero\<close> and \<open>missingkey=error\<close> make it panic.
\<close>

datatype missingKeyAction = mapInvalid | mapZeroValue | mapError

record Template =
  missingKey :: missingKeyAction
  body :: string

definition setOption :: "Template \<Rightarrow> string \<Rightarrow> panic_value + Template" where
  "setOption t opt =
     (if opt = [] then Inl (PanicString ''empty option string'')
      else if opt = ''missingkey=invalid'' \<or> opt = ''missingkey=default''
        then Inr (t\<lparr>missingKey := mapInvalid\<rparr>)
      else if opt = ''missingkey=zero'' then Inr (t\<lparr>missingKey := mapZeroValue\<rparr>)
      else if opt = ''missingkey=error'' then Inr (t\<lparr>missingKey := mapError\<rparr>)
      else Inl (PanicString (''unrecognized option: '' @ opt)))"

fun template_Option :: "Template \<Rightarrow> string list \<Rightarrow> Template \<times> panic_value option" where
  "template_Option t [] = (t, None)"
| "template_Option t (s # opt) =
     (case setOption t s of Inl p \<Rightarrow> (t, Some p) | Inr t' \<Rightarrow> template_Option t' opt)"

text \<open>
  Templates without actions, which render as their own text. The source of the template,
  the options of the input, the map that the request converts to, the decoder and the
  desired state of the initial response are parameters.
\<close>

definition literal_templates ::
  "string \<Rightarrow> string list option \<Rightarrow> (string \<rightharpoonup> string)
     \<Rightarrow> (string \<Rightarrow> 'd RunFunctionResponse \<Rightarrow> 'd RunFunctionResponse option \<times> error option)
     \<Rightarrow> 'd \<Rightarrow> (unit, Template, string, 'd) collaborators" where
  "literal_templates src opts m dec d =
     \<lparr>response_To = (\<lambda>_. \<lparr>Results = [], Desired = Some d\<rparr>),
      GetInput = (\<lambda>_. Inr \<lparr>Delims = None, Options = opts\<rparr>),
      NewTemplateSourceGetter = (\<lambda>_ _. Inr src),
      Parse = (\<lambda>_ s. Inr \<lparr>missingKey = mapInvalid, body = s\<rparr>),
      Option = template_Option,
      Marshal = (\<lambda>_. Inr ''{}''),
      Unmarshal = (\<lambda>_. Inr m),
      Execute = (\<lambda>t _. Inr (body t)),
      Decode = dec\<rparr>"

section \<open>The YAML-or-JSON decoder on some rendered texts\<close>

text \<open>
  \<open>decoder.Decode(&rsp)\<close> of package \<open>k8s.io/apimachinery/pkg/util/yaml\<close> is modelled on
  the rendered texts that are one JSON object of the shape
  \<open>{"desired": {"resources": {name: {"resource": {...}}, ...}}}\<close>, in which every value is
  a string or an object, no string has an escape or a character outside printable ASCII,
  and no object has a key twice. A text that starts with \<open>{\<close> takes the JSON path of the
  decoder, where \<open>encoding/json\<close> writes the value into the response.
\<close>

datatype json = JString string | JObject "(string \<times> json) list"

datatype token = TLBrace | TRBrace | TColon | TComma | TString string

definition double_quote :: char where
  "double_quote = CHR 0x22"

definition string_char :: "char \<Rightarrow> bool" where
  "string_char c = (c \<noteq> CHR 0x5C \<and> 32 \<le> (of_char c :: nat) \<and> (of_char c :: nat) \<le> 126)"

definition json_space :: "char \<Rightarrow> bool" where
  "json_space c = (c = CHR '' '' \<or> c = CHR 0x09 \<or> c = CHR 0x0A \<or> c = CHR 0x0D)"

definition punctuation :: "char \<Rightarrow> token option" where
  "punctuation c =
     (if c = CHR ''{'' then Some TLBrace
      else if c = CHR ''}'' then Some TRBrace
      else if c = CHR '':'' then Some TColon
      else if c = CHR '','' then Some TComma
      else None)"

fun lex :: "string \<Rightarrow> string option \<Rightarrow> token list \<Rightarrow> token list option" where
  "lex [] None acc = Some (rev acc)"
| "lex [] (Some s) acc = None"
| "lex (c # cs) (Some s) acc =
     (if c = double_quote then lex cs None (TString s # acc)
      else if string_char c then lex cs (Some (s @ [c])) acc
      else None)"
| "lex (c # cs) None acc =
     (case punctuation c of
        Some t \<Rightarrow> lex cs None (t # acc)
      | None \<Rightarrow>
          if c = double_quote then lex cs (Some []) acc
          else if json_space c then lex cs None acc
          else None)"

datatype expect = Value | KeyOrEnd | Key | Colon | CommaOrEnd | Done json

type_synonym frame = "(string \<times> json) list \<times> string"

fun deliver :: "json \<Rightarrow> frame list \<Rightarrow> expect \<times> frame list" where
  "deliver v [] = (Done v, [])"
| "deliver v ((ms, k) # rest) = (CommaOrEnd, (ms @ [(k, v)], []) # rest)"

definition set_key :: "string \<Rightarrow> frame list \<Rightarrow> (expect \<times> frame list) option" where
  "set_key k stack =
     (case stack of [] \<Rightarrow> None | (ms, _) # rest \<Rightarrow> Some (Colon, (ms, k) # rest))"

definition close_object :: "frame list \<Rightarrow> (expect \<times> frame list) option" where
  "close_object stack =
     (case stack of [] \<Rightarrow> None | (ms, _) # rest \<Rightarrow> Some (deliver (JObject ms) rest))"

definition step :: "token \<Rightarrow> expect \<Rightarrow> frame list \<Rightarrow> (expect \<times> frame list) option" where
  "step t e stack =
     (case t of
        TLBrace \<Rightarrow> (case e of Value \<Rightarrow> Some (KeyOrEnd, ([], []) # stack) | _ \<Rightarrow> None)
      | TString s \<Rightarrow>
          (case e of
             Value \<Rightarrow> Some (deliver (JString s) stack)
           | KeyOrEnd \<Rightarrow> set_key s stack
           | Key \<Rightarrow> set_key s stack
           | _ \<Rightarrow> None)
      | TColon \<Rightarrow> (case e of Colon \<Rightarrow> Some (Value, stack) | _ \<Rightarrow> None)
      | TComma \<Rightarrow> (case e of CommaOrEnd \<Rightarrow> Some (Key, stack) | _ \<Rightarrow> None)
      | TRBrace \<Rightarrow>
          (case e of
             KeyOrEnd \<Rightarrow> close_object stack
           | CommaOrEnd \<Rightarrow> close_object stack
           | _ \<Rightarrow> None))"

fun parse :: "token list \<Rightarrow> expect \<Rightarrow> frame list \<Rightarrow> json option" where
  "parse [] e stack = (case e of Done v \<Rightarrow> Some v | _ \<Rightarrow> None)"
| "parse (t # ts) e stack =
     (case step t e stack of None \<Rightarrow> None | Some (e', stack') \<Rightarrow> parse ts e' stack')"

fun distinct_keys :: "json \<Rightarrow> bool"
  and distinct_keys_members :: "(string \<times> json) list \<Rightarrow> bool" where
  "distinct_keys (JString s) = True"
| "distinct_keys (JObject kvs) = (distinct (map fst kvs) \<and> distinct_keys_members kvs)"
| "distinct_keys_members [] = True"
| "distinct_keys_members ((k, v) # kvs) = (distinct_keys v \<and> distinct_keys_members kvs)"

definition parse_json :: "string \<Rightarrow> json option" where
  "parse_json data =
     (case lex data None [] of
        None \<Rightarrow> None
      | Some toks \<Rightarrow>
          (case parse toks Value [] of
             None \<Rightarrow> None
           | Some v \<Rightarrow> if distinct_keys v then Some v else None))"

text \<open>
  The desired state of a response, as far as its composed resources go: the body of a
  resource (\<open>None\<close> is the nil pointer) and its readiness.
\<close>

datatype Ready = READY_UNSPECIFIED | READY_TRUE | READY_FALSE

record Resource =
  resource :: "json option"
  ready :: Ready

record State =
  Resources :: "(string \<times> Resource) list"

text \<open>The bodies of the resources, by name, in a value of the shape above.\<close>

fun resource_body :: "json \<Rightarrow> json option" where
  "resource_body (JObject [(k, JObject b)]) = (if k = ''resource'' then Some (JObject b) else None)"
| "resource_body _ = None"

fun desired_resources :: "json \<Rightarrow> (string \<times> json) list option" where
  "desired_resources (JObject [(k1, JObject [(k2, JObject rs)])]) =
     (if k1 = ''desired'' \<and> k2 = ''resources''
      then those (map (\<lambda>(n, v). map_option (Pair n) (resource_body v)) rs)
      else None)"
| "desired_resources _ = None"

text \<open>
  The desired state and its map of resources are allocated when they are nil and kept
  otherwise. Each name gets a new resource: its body is the object under \<open>resource\<close>, and
  its readiness, of which the text says nothing, has the zero value.
\<close>

definition put_resources :: "(string \<times> json) list \<Rightarrow> State option \<Rightarrow> State" where
  "put_resources rs st =
     (let st0 = (case st of None \<Rightarrow> \<lparr>Resources = []\<rparr> | Some s \<Rightarrow> s)
      in st0\<lparr>Resources :=
               foldl (\<lambda>xs (n, b). AList.update n \<lparr>resource = Some b, ready = READY_UNSPECIFIED\<rparr> xs)
                 (Resources st0) rs\<rparr>)"

text \<open>The decoder on a text of the shape above; \<open>None\<close> on every other text.\<close>

definition decode_desired_resources ::
  "string \<Rightarrow> State RunFunctionResponse
     \<Rightarrow> (State RunFunctionResponse option \<times> error option) option" where
  "decode_desired_resources data rsp =
     (case parse_json data of
        None \<Rightarrow> None
      | Some v \<Rightarrow>
          (case desired_resources v of
             None \<Rightarrow> None
           | Some rs \<Rightarrow> Some (Some (rsp\<lparr>Desired := Some (put_resources rs (Desired rsp))\<rparr>), None)))"

text \<open>
  The YAML path of the decoder at one text. The three lines \<open>a: 1\<close>, \<open>b: c: d\<close>, \<open>e: 2\<close>
  are not YAML: the parser stops at the second colon of line 2, and the decoder returns
  its error, wrapped, before it writes to the response. At the other texts the function
  leaves the response as it is; nothing below depends on them.
\<close>

definition invalid_manifest :: string where
  "invalid_manifest = ''a: 1'' @ [CHR 0x0A] @ ''b: c: d'' @ [CHR 0x0A] @ ''e: 2''"

definition invalid_manifest_error :: error where
  "invalid_manifest_error =
     ''error converting YAML to JSON: yaml: line 2: mapping values are not allowed in this context''"

definition yaml_path_at_examples ::
  "string \<Rightarrow> 'r \<Rightarrow> 'r option \<times> error option" where
  "yaml_path_at_examples data rsp =
     (if data = invalid_manifest then (Some rsp, Some invalid_manifest_error)
      else (Some rsp, None))"

text \<open>The decoder: the texts of the JSON shape above, and \<open>other\<close> on every other text.\<close>

definition YAMLOrJSONDecoder_Decode ::
  "(string \<Rightarrow> State RunFunctionResponse \<Rightarrow> State RunFunctionResponse option \<times> error option)
     \<Rightarrow> string \<Rightarrow> State RunFunctionResponse
     \<Rightarrow> State RunFunctionResponse option \<times> error option" where
  "YAMLOrJSONDecoder_Decode other data rsp =
     (case decode_desired_resources data rsp of
        Some r \<Rightarrow> r
      | None \<Rightarrow> other data rsp)"

text \<open>
  Two rendered texts of the JSON shape: a resource \<open>bucket\<close> without annotations, and the
  same resource with the annotation \<open>gotemplating.fn.crossplane.io/ready: True\<close>. Neither
  holds a template action, so each renders as itself.
\<close>

definition quoted :: "string \<Rightarrow> string" where
  "quoted s = [double_quote] @ s @ [double_quote]"

definition annotated_manifest :: string where
  "annotated_manifest =
     ''{'' @ quoted ''desired'' @ '': {'' @ quoted ''resources'' @ '': {'' @ quoted ''bucket''
     @ '': {'' @ quoted ''resource'' @ '': {'' @ quoted ''kind'' @ '': '' @ quoted ''Bucket''
     @ '', '' @ quoted ''metadata'' @ '': {'' @ quoted ''annotations'' @ '': {''
     @ quoted ''gotemplating.fn.crossplane.io/ready'' @ '': '' @ quoted ''True''
     @ ''} } } } } } }''"

definition plain_manifest :: string where
  "plain_manifest =
     ''{'' @ quoted ''desired'' @ '': {'' @ quoted ''resources'' @ '': {'' @ quoted ''bucket''
     @ '': {'' @ quoted ''resource'' @ '': {'' @ quoted ''kind'' @ '': '' @ quoted ''Bucket''
     @ ''} } } } }''"

section \<open>Properties of moveToNextDoc\<close>

lemma moveToNextDoc_loop_returns:
  "1 \<le> i \<Longrightarrow> \<exists>r. moveToNextDoc_loop L s i = Inr r"
proof (induction L s i rule: moveToNextDoc_loop.induct)
  case (1 lines startLine i)
  show ?case
  proof (cases "i \<le> int (length lines)")
    case False
    then show ?thesis by (simp add: moveToNextDoc_loop.simps)
  next
    case True
    with "1.prems" have rd: "slice_at lines (dec64 i) = Inr (lines ! nat (i - 1))"
      by (simp add: slice_at_def dec64_def)
    show ?thesis
    proof (cases "TrimSpace (lines ! nat (i - 1)) = ''---'' \<and> i > startLine")
      case True
      with \<open>i \<le> int (length lines)\<close> rd show ?thesis
        by (subst moveToNextDoc_loop.simps) simp
    next
      case False
      from "1.IH"[OF True rd False] "1.prems"
      obtain r where "moveToNextDoc_loop lines startLine (i + 1) = Inr r" by auto
      with True rd False show ?thesis
        by (subst moveToNextDoc_loop.simps) auto
    qed
  qed
qed

lemma moveToNextDoc_loop_finds:
  "1 \<le> i \<Longrightarrow> moveToNextDoc_loop L s i = Inr r \<Longrightarrow>
     (r = s \<and> (\<forall>j. i \<le> j \<and> s < j \<longrightarrow> \<not> is_separator_line L j)) \<or>
     (i \<le> r \<and> s < r \<and> is_separator_line L r \<and>
        (\<forall>j. i \<le> j \<and> j < r \<and> s < j \<longrightarrow> \<not> is_separator_line L j))"
proof (induction L s i rule: moveToNextDoc_loop.induct)
  case (1 lines startLine i)
  show ?case
  proof (cases "i \<le> int (length lines)")
    case False
    with "1.prems" show ?thesis
      by (auto simp: moveToNextDoc_loop.simps is_separator_line_def)
  next
    case True
    with "1.prems" have rd: "slice_at lines (dec64 i) = Inr (lines ! nat (i - 1))"
      by (simp add: slice_at_def dec64_def)
    show ?thesis
    proof (cases "TrimSpace (lines ! nat (i - 1)) = ''---'' \<and> i > startLine")
      case found: True
      with True rd "1.prems"(2) have "r = i"
        by (subst (asm) moveToNextDoc_loop.simps) simp
      with found True "1.prems"(1) show ?thesis
        by (auto simp: is_separator_line_def)
    next
      case False
      with True rd "1.prems"(2) have next_: "moveToNextDoc_loop lines startLine (i + 1) = Inr r"
        by (subst (asm) moveToNextDoc_loop.simps) auto
      from "1.prems"(1) have "1 \<le> i + 1" by simp
      from "1.IH"[OF True rd False this next_]
      have IH: "(r = startLine \<and> (\<forall>j. i + 1 \<le> j \<and> startLine < j \<longrightarrow> \<not> is_separator_line lines j)) \<or>
        (i + 1 \<le> r \<and> startLine < r \<and> is_separator_line lines r \<and>
          (\<forall>j. i + 1 \<le> j \<and> j < r \<and> startLine < j \<longrightarrow> \<not> is_separator_line lines j))" .
      have here: "startLine < i \<longrightarrow> \<not> is_separator_line lines i"
        using False by (auto simp: is_separator_line_def)
      have step: "\<And>j. i \<le> j \<Longrightarrow> j = i \<or> i + 1 \<le> j" by arith
      from IH show ?thesis
      proof
        assume a: "r = startLine \<and> (\<forall>j. i + 1 \<le> j \<and> startLine < j \<longrightarrow> \<not> is_separator_line lines j)"
        have "\<forall>j. i \<le> j \<and> startLine < j \<longrightarrow> \<not> is_separator_line lines j"
          using a here step by blast
        with a show ?thesis by blast
      next
        assume b: "i + 1 \<le> r \<and> startLine < r \<and> is_separator_line lines r \<and>
          (\<forall>j. i + 1 \<le> j \<and> j < r \<and> startLine < j \<longrightarrow> \<not> is_separator_line lines j)"
        have "\<forall>j. i \<le> j \<and> j < r \<and> startLine < j \<longrightarrow> \<not> is_separator_line lines j"
          using b here step by blast
        moreover from b have "i \<le> r" by arith
        ultimately show ?thesis using b by blast
      qed
    qed
  qed
qed


lemma moveToNextDoc_reads_in_range:
  "1 \<le> i \<Longrightarrow> j \<in> set (moveToNextDoc_reads L s i) \<Longrightarrow> 0 \<le> j \<and> j < int (length L)"
proof (induction L s i rule: moveToNextDoc_reads.induct)
  case (1 lines startLine i)
  show ?case
  proof (cases "i \<le> int (length lines)")
    case False
    with "1.prems" show ?thesis by (simp add: moveToNextDoc_reads.simps)
  next
    case True
    with "1.prems" have rd: "slice_at lines (dec64 i) = Inr (lines ! nat (i - 1))"
      by (simp add: slice_at_def dec64_def)
    show ?thesis
    proof (cases "TrimSpace (lines ! nat (i - 1)) = ''---'' \<and> i > startLine")
      case found: True
      with True rd "1.prems" show ?thesis
        by (subst (asm) moveToNextDoc_reads.simps) (auto simp: dec64_def)
    next
      case False
      from True rd False "1.prems"(2)
      have "j = dec64 i \<or> j \<in> set (moveToNextDoc_reads lines startLine (i + 1))"
        by (subst (asm) moveToNextDoc_reads.simps) auto
      then show ?thesis
      proof
        assume "j = dec64 i" with True "1.prems"(1) show ?thesis by (simp add: dec64_def)
      next
        assume "j \<in> set (moveToNextDoc_reads lines startLine (i + 1))"
        with "1.IH"[OF True rd False] "1.prems"(1) show ?thesis by simp
      qed
    qed
  qed
qed

lemma moveToNextDoc_zero: "moveToNextDoc L 0 = Inl (IndexOutOfRange (- 1) (length L))"
  unfolding moveToNextDoc_def
  by (subst moveToNextDoc_loop.simps) (simp add: slice_at_def dec64_def)

lemma moveToNextDoc_reads_zero: "moveToNextDoc_reads L 0 0 = [- 1]"
  by (subst moveToNextDoc_reads.simps) (simp add: slice_at_def dec64_def)

text \<open>The loop panics exactly when one of its reads is out of range.\<close>

lemma moveToNextDoc_loop_panics_iff:
  "(\<exists>p. moveToNextDoc_loop L s i = Inl p) \<longleftrightarrow>
   \<not> list_all (\<lambda>j. 0 \<le> j \<and> j < int (length L)) (moveToNextDoc_reads L s i)"
proof (induction L s i rule: moveToNextDoc_loop.induct)
  case (1 lines startLine i)
  show ?case
  proof (cases "i \<le> int (length lines)")
    case False
    then show ?thesis
      by (simp add: moveToNextDoc_loop.simps moveToNextDoc_reads.simps)
  next
    case True
    show ?thesis
    proof (cases "slice_at lines (dec64 i)")
      case (Inl p)
      then have "\<not> (0 \<le> dec64 i \<and> dec64 i < int (length lines))"
        by (auto simp: slice_at_def split: if_splits)
      with True Inl show ?thesis
        by (subst moveToNextDoc_loop.simps, subst moveToNextDoc_reads.simps) simp
    next
      case (Inr l)
      then have ok: "0 \<le> dec64 i \<and> dec64 i < int (length lines)"
        by (auto simp: slice_at_def split: if_splits)
      show ?thesis
      proof (cases "TrimSpace l = ''---'' \<and> i > startLine")
        case found: True
        with True Inr ok show ?thesis
          by (subst moveToNextDoc_loop.simps, subst moveToNextDoc_reads.simps) simp
      next
        case False
        from "1.IH"[OF True Inr False] True Inr False ok show ?thesis
          by (subst moveToNextDoc_loop.simps, subst moveToNextDoc_reads.simps) auto
      qed
    qed
  qed
qed

text \<open>
  C9. \<open>moveToNextDoc(L, 0)\<close> reads index -1 of \<open>L\<close>, whatever \<open>L\<close> is (the empty list
  included), and panics there. From every start line of at least 1 the function returns
  normally and reads \<open>L\<close> only at indices from 0 to \<open>len(L) - 1\<close>.
\<close>

theorem moveToNextDoc_index_safety:
  "moveToNextDoc L 0 = Inl (IndexOutOfRange (- 1) (length L)) \<and>
   moveToNextDoc_reads L 0 0 = [- 1] \<and>
   (1 \<le> s \<longrightarrow>
      (\<exists>r. moveToNextDoc L s = Inr r) \<and>
      list_all (\<lambda>j. 0 \<le> j \<and> j < int (length L)) (moveToNextDoc_reads L s s))"
  using moveToNextDoc_zero moveToNextDoc_reads_zero moveToNextDoc_loop_returns[of s L s] moveToNextDoc_reads_in_range[of s _ L s]
  by (auto simp: moveToNextDoc_def list_all_iff)

theorem moveToNextDoc_index_safety_witness:
  "moveToNextDoc [] 0 = Inl (IndexOutOfRange (- 1) 0) \<and>
   (\<exists>r. moveToNextDoc [''a: 1'', ''---'', ''b: 2''] 1 = Inr r) \<and>
   list_all (\<lambda>j. 0 \<le> j \<and> j < 3) (moveToNextDoc_reads [''a: 1'', ''---'', ''b: 2''] 1 1)"
  using moveToNextDoc_index_safety[of "[]" 1] moveToNextDoc_index_safety[of "[''a: 1'', ''---'', ''b: 2'']" 1]
  by simp

text \<open>
  C5, as amended. From a start line \<open>s\<close> of at least 1, \<open>moveToNextDoc(L, s)\<close> returns
  the least line number greater than \<open>s\<close> whose line, trimmed of white space, is \<open>---\<close>,
  when \<open>L\<close> has such a line; otherwise it returns \<open>s\<close> unchanged. A separator at line
  \<open>s\<close> itself is never selected.
\<close>

theorem moveToNextDoc_next_separator:
  assumes "1 \<le> s"
  shows "\<exists>r. moveToNextDoc L s = Inr r \<and>
           (if \<exists>j. s < j \<and> is_separator_line L j
            then s < r \<and> is_separator_line L r \<and>
                 (\<forall>j. s < j \<and> j < r \<longrightarrow> \<not> is_separator_line L j)
            else r = s)"
proof -
  from moveToNextDoc_loop_returns[OF assms] obtain r where r: "moveToNextDoc_loop L s s = Inr r" by blast
  from moveToNextDoc_loop_finds[OF assms r]
  have "(r = s \<and> (\<forall>j. s < j \<longrightarrow> \<not> is_separator_line L j)) \<or>
        (s < r \<and> is_separator_line L r \<and> (\<forall>j. s < j \<and> j < r \<longrightarrow> \<not> is_separator_line L j))"
    by auto
  then have "if \<exists>j. s < j \<and> is_separator_line L j
            then s < r \<and> is_separator_line L r \<and>
                 (\<forall>j. s < j \<and> j < r \<longrightarrow> \<not> is_separator_line L j)
            else r = s"
    by auto
  with r show ?thesis by (simp add: moveToNextDoc_def)
qed

theorem moveToNextDoc_next_separator_witness:
  "(1 :: int) \<le> 1 \<and>
   moveToNextDoc [''---'', ''a: 1'', '' --- '', ''---''] 1 = Inr 3 \<and>
   moveToNextDoc [''---'', ''a: 1''] 1 = Inr 1"
proof -
  let ?L = "[''---'', ''a: 1'', '' --- '', ''---'']"
  let ?M = "[''---'', ''a: 1'']"
  have sep: "is_separator_line ?L 3"
    by code_simp
  have no2: "\<not> is_separator_line ?L 2"
    by code_simp
  have no2': "\<not> is_separator_line ?M 2"
    by code_simp
  have none: "\<not> (\<exists>j. 1 < j \<and> is_separator_line ?M j)"
  proof
    assume "\<exists>j. 1 < j \<and> is_separator_line ?M j"
    then obtain j where j: "1 < j" "is_separator_line ?M j" by blast
    from j(2) have "j \<le> 2" by (simp add: is_separator_line_def)
    with j(1) have "j = 2" by arith
    with j(2) no2' show False by simp
  qed
  have some: "\<exists>j. 1 < j \<and> is_separator_line ?L j"
    using sep by (intro exI[of _ 3]) simp
  from moveToNextDoc_next_separator[of 1 ?L]
  obtain r where r: "moveToNextDoc ?L 1 = Inr r"
    and c: "if \<exists>j. 1 < j \<and> is_separator_line ?L j
            then 1 < r \<and> is_separator_line ?L r \<and>
                 (\<forall>j. 1 < j \<and> j < r \<longrightarrow> \<not> is_separator_line ?L j)
            else r = 1"
    by blast
  from c have "1 < r \<and> is_separator_line ?L r \<and>
                 (\<forall>j. 1 < j \<and> j < r \<longrightarrow> \<not> is_separator_line ?L j)"
    unfolding if_P[OF some] .
  then have r1: "1 < r" and r2: "is_separator_line ?L r"
    and r3: "\<forall>j. 1 < j \<and> j < r \<longrightarrow> \<not> is_separator_line ?L j"
    by blast+
  have "r = 3"
  proof (rule ccontr)
    assume "r \<noteq> 3"
    moreover have "\<not> 3 < r" using r3 sep by force
    ultimately have "r < 3" by arith
    with r1 have "r = 2" by arith
    with r2 no2 show False by simp
  qed
  moreover from moveToNextDoc_next_separator[of 1 ?M]
  obtain r' where r': "moveToNextDoc ?M 1 = Inr r'"
    and c': "if \<exists>j. 1 < j \<and> is_separator_line ?M j
            then 1 < r' \<and> is_separator_line ?M r' \<and>
                 (\<forall>j. 1 < j \<and> j < r' \<longrightarrow> \<not> is_separator_line ?M j)
            else r' = 1"
    by blast
  from c' have "r' = 1" unfolding if_not_P[OF none] .
  ultimately show ?thesis using r r' by simp
qed

text \<open>
  C5 as stated fails where no separator follows the start line: on the single line
  \<open>a: 1\<close> and start line 1 the function returns 1, which is neither greater than the
  start line nor the number of a separator line.
\<close>

theorem moveToNextDoc_without_separator:
  "moveToNextDoc [''a: 1''] 1 = Inr 1 \<and> \<not> is_separator_line [''a: 1''] 1"
  by code_simp

section \<open>Properties of the scanner\<close>

lemma leading_space_other:
  "c \<notin> set space_lead_bytes \<Longrightarrow> leading_space (c # s) = None"
  by (simp add: leading_space_def space_runes_def space_lead_bytes_def)

lemma leading_space_Nil: "leading_space [] = None"
  by (simp add: leading_space_def space_runes_def)

lemma leading_space_blank: "leading_space (CHR '' '' # s) = Some '' ''"
  by (simp add: leading_space_def space_runes_def)

lemma skip_blanks_other:
  "c \<notin> set space_lead_bytes \<Longrightarrow> skip_blanks (c # s) = c # s"
  by (subst skip_blanks.simps) (simp add: leading_space_other)

lemma format_space_blank:
  "c \<notin> set space_lead_bytes \<Longrightarrow> format_space (CHR '' '' # c # s) = Inr (c # s)"
  by (simp add: format_space_def leading_space_blank newline_def skip_blanks_other)

lemma SkipSpace_other:
  "c \<notin> set space_lead_bytes \<Longrightarrow> SkipSpace (c # s) = Inr (c # s)"
  by (subst SkipSpace.simps) (simp add: leading_space_other)

lemma is_digit_digit_char: "d < 10 \<Longrightarrow> is_digit (digit_char d)"
  by (simp add: is_digit_def digit_char_def)

lemma digit_value_digit_char: "d < 10 \<Longrightarrow> digit_value (digit_char d) = d"
  by (simp add: digit_value_def digit_char_def)

lemma decimal_digits: "list_all is_digit (decimal n)"
proof (induction n rule: decimal.induct)
  case (1 n)
  show ?case
  proof (cases "n < 10")
    case True
    then have "nat n < 10" by simp
    then show ?thesis
      by (subst decimal.simps) (simp add: True is_digit_digit_char)
  next
    case False
    then have "nat (n mod 10) < 10" by simp
    with False "1.IH" show ?thesis
      by (subst decimal.simps) (simp add: is_digit_digit_char)
  qed
qed

lemma decimal_nonempty: "decimal n \<noteq> []"
  by (subst decimal.simps) simp

lemma decimal_value_snoc:
  "decimal_value (ds @ [c]) = 10 * decimal_value ds + int (digit_value c)"
  by (simp add: decimal_value_def)

lemma decimal_value_decimal: "0 \<le> n \<Longrightarrow> decimal_value (decimal n) = n"
proof (induction n rule: decimal.induct)
  case (1 n)
  show ?case
  proof (cases "n < 10")
    case True
    with "1.prems" have "nat n < 10" by simp
    with True "1.prems" show ?thesis
      by (subst decimal.simps) (simp add: decimal_value_def digit_value_digit_char)
  next
    case False
    then have "nat (n mod 10) < 10" by simp
    moreover from False "1.prems" "1.IH" have "decimal_value (decimal (n div 10)) = n div 10"
      by simp
    ultimately show ?thesis using False
      by (subst decimal.simps) (simp add: decimal_value_snoc digit_value_digit_char)
  qed
qed

lemma is_digit_not_special:
  "is_digit c \<Longrightarrow> c \<notin> set space_lead_bytes \<and> c \<noteq> CHR ''+'' \<and> c \<noteq> CHR ''-'' \<and> c \<noteq> CHR '':''"
  by (auto simp: is_digit_def space_lead_bytes_def)

lemma colon_not_digit: "\<not> is_digit CHR '':''"
  by (simp add: is_digit_def)

lemma minus_not_space: "CHR ''-'' \<notin> set space_lead_bytes"
  by (simp add: space_lead_bytes_def)

lemma takeWhile_digits:
  "list_all is_digit ds \<Longrightarrow> takeWhile is_digit (ds @ CHR '':'' # rest) = ds"
  by (induction ds) (simp_all add: colon_not_digit)

lemma dropWhile_digits:
  "list_all is_digit ds \<Longrightarrow> dropWhile is_digit (ds @ CHR '':'' # rest) = CHR '':'' # rest"
  by (induction ds) (simp_all add: colon_not_digit)

lemma ParseInt_decimal:
  "0 \<le> n \<Longrightarrow> n < 2 ^ 63 \<Longrightarrow> ParseInt (decimal n) = Inr n"
proof -
  assume n: "0 \<le> n" "n < 2 ^ 63"
  obtain c cs where d: "decimal n = c # cs" using decimal_nonempty by (cases "decimal n") auto
  with decimal_digits[of n] have "is_digit c" by simp
  then have "c \<noteq> CHR ''+''" "c \<noteq> CHR ''-''" using is_digit_not_special by blast+
  moreover have "list_all is_digit (c # cs)" using decimal_digits[of n] d by simp
  moreover have "decimal_value (c # cs) = n" using decimal_value_decimal[OF n(1)] d by simp
  ultimately show ?thesis using n d by (simp add: ParseInt_def)
qed

lemma ParseInt_minus_decimal:
  "0 < n \<Longrightarrow> n \<le> 2 ^ 63 \<Longrightarrow> ParseInt (CHR ''-'' # decimal n) = Inr (- n)"
proof -
  assume n: "0 < n" "n \<le> 2 ^ 63"
  have "decimal_value (decimal n) = n" using decimal_value_decimal n by simp
  with n decimal_digits[of n] decimal_nonempty[of n] show ?thesis
    by (simp add: ParseInt_def)
qed

lemma ParseInt_Sprintf_d:
  "- (2 ^ 63) \<le> N \<Longrightarrow> N < 2 ^ 63 \<Longrightarrow> ParseInt (Sprintf_d N) = Inr N"
  using ParseInt_decimal[of N] ParseInt_minus_decimal[of "- N"]
  by (cases "N < 0") (simp_all add: Sprintf_d_def)

lemma scanInt_Sprintf_d:
  assumes "- (2 ^ 63) \<le> N" "N < 2 ^ 63"
  shows "scanInt (Sprintf_d N @ CHR '':'' # rest) = Inr (N, CHR '':'' # rest)"
proof (cases "N < 0")
  case True
  obtain c cs where d: "decimal (- N) = c # cs"
    using decimal_nonempty by (cases "decimal (- N)") auto
  with decimal_digits[of "- N"] have c: "is_digit c" by simp
  have tw: "takeWhile is_digit (decimal (- N) @ CHR '':'' # rest) = decimal (- N)"
    by (rule takeWhile_digits[OF decimal_digits])
  have dw: "dropWhile is_digit (decimal (- N) @ CHR '':'' # rest) = CHR '':'' # rest"
    by (rule dropWhile_digits[OF decimal_digits])
  have p: "ParseInt (CHR ''-'' # decimal (- N)) = Inr N"
    using ParseInt_Sprintf_d[OF assms] True by (simp add: Sprintf_d_def)
  have sk: "SkipSpace (CHR ''-'' # decimal (- N) @ CHR '':'' # rest)
              = Inr (CHR ''-'' # decimal (- N) @ CHR '':'' # rest)"
    by (rule SkipSpace_other[OF minus_not_space])
  have "scanInt (CHR ''-'' # decimal (- N) @ CHR '':'' # rest) = Inr (N, CHR '':'' # rest)"
    unfolding scanInt_def sk using tw dw p c d by (simp add: Let_def)
  with True show ?thesis by (simp add: Sprintf_d_def)
next
  case False
  obtain c cs where d: "decimal N = c # cs"
    using decimal_nonempty by (cases "decimal N") auto
  with decimal_digits[of N] have c: "is_digit c" by simp
  then have c': "c \<notin> set space_lead_bytes" "c \<noteq> CHR ''+''" "c \<noteq> CHR ''-''"
    using is_digit_not_special by blast+
  have tw: "takeWhile is_digit (decimal N @ CHR '':'' # rest) = decimal N"
    by (rule takeWhile_digits[OF decimal_digits])
  have dw: "dropWhile is_digit (decimal N @ CHR '':'' # rest) = CHR '':'' # rest"
    by (rule dropWhile_digits[OF decimal_digits])
  have p: "ParseInt (decimal N) = Inr N"
    using ParseInt_Sprintf_d[OF assms] False by (simp add: Sprintf_d_def)
  have sk: "SkipSpace (c # cs @ CHR '':'' # rest) = Inr (c # cs @ CHR '':'' # rest)"
    by (rule SkipSpace_other[OF c'(1)])
  have "scanInt (c # cs @ CHR '':'' # rest) = Inr (N, CHR '':'' # rest)"
    unfolding scanInt_def sk using tw dw p c c' d by (simp add: Let_def)
  with False d show ?thesis by (simp add: Sprintf_d_def)
qed

lemma Sprintf_d_head:
  "\<exists>c cs. Sprintf_d N = c # cs \<and> c \<notin> set space_lead_bytes"
proof (cases "N < 0")
  case True
  then show ?thesis by (simp add: Sprintf_d_def minus_not_space)
next
  case False
  obtain c cs where d: "decimal N = c # cs"
    using decimal_nonempty by (cases "decimal N") auto
  with decimal_digits[of N] have "is_digit c" by simp
  with d False show ?thesis using is_digit_not_special by (simp add: Sprintf_d_def)
qed


lemma doScanf_yaml_line:
  assumes "- (2 ^ 63) \<le> N" "N < 2 ^ 63"
  shows "doScanf yaml_line_format (yaml_line_prefix N @ rest) [] = ([N], None)"
proof -
  obtain c cs where d: "Sprintf_d N = c # cs" and c: "c \<notin> set space_lead_bytes"
    using Sprintf_d_head by blast
  have sc: "scanInt (c # cs @ CHR '':'' # rest) = Inr (N, CHR '':'' # rest)"
    using scanInt_Sprintf_d[OF assms, of rest] d by simp
  have sk: "SkipSpace (c # cs @ CHR '':'' # rest) = Inr (c # cs @ CHR '':'' # rest)"
    by (rule SkipSpace_other[OF c])
  have fs: "format_space (CHR '' '' # c # cs @ CHR '':'' # rest) = Inr (c # cs @ CHR '':'' # rest)"
    by (rule format_space_blank[OF c])
  have blank: "format_space (CHR '' '' # x # s) = Inr (x # s)"
     if "x \<in> set ''cYtJyl''" for x s
    using that by (intro format_space_blank) (auto simp: space_lead_bytes_def)
  show ?thesis
    unfolding yaml_line_format_def yaml_line_prefix_def d
    by (simp add: doScanf.simps blank fs sk sc)
qed

lemma Sscanf_yaml_line:
  assumes "- (2 ^ 63) \<le> N" "N < 2 ^ 63"
  shows "Sscanf (yaml_line_prefix N @ rest) yaml_line_format = (1, None, N)"
  by (simp add: Sscanf_def doScanf_yaml_line[OF assms])

lemma Index_prefix: "Index (p @ rest) p = 0"
proof (cases "p @ rest")
  case Nil
  then show ?thesis by simp
next
  case (Cons a list)
  have "take (length p) (p @ rest) = p" by simp
  with Cons have "take (length p) (a # list) = p" by simp
  then have "Index (a # list) p = 0" by simp
  with Cons show ?thesis by simp
qed

section \<open>Properties of getYamlErrorContextFromErr\<close>

lemma in_int64_add64: "- (2 ^ 63) \<le> add64 a b \<and> add64 a b < 2 ^ 63"
  by (simp add: add64_def wrap64_def)

lemma sub64_one: "1 \<le> a \<Longrightarrow> a < 2 ^ 63 \<Longrightarrow> sub64 a 1 = a - 1"
  by (simp add: sub64_def wrap64_def)

lemma sub64_one_low:
  "- (2 ^ 63) \<le> a \<Longrightarrow> a < 1 \<Longrightarrow> sub64 a 1 < 0 \<or> sub64 a 1 = 2 ^ 63 - 1"
  by (cases "a = - (2 ^ 63)") (simp_all add: sub64_def wrap64_def)

lemma getYaml_canonical:
  assumes "- (2 ^ 63) \<le> N" and "N < 2 ^ 63"
    and "1 \<le> add64 s N" and "add64 s N \<le> int (length L)"
  shows "getYamlErrorContextFromErr (Some (yaml_line_prefix N @ rest)) s L =
           Inr \<lparr>RelLine = N, AbsLine = add64 s N, Message = TrimSpace rest,
                Context = L ! nat (add64 s N - 1)\<rparr>"
proof -
  have "sub64 (add64 s N) 1 = add64 s N - 1"
    using sub64_one[OF assms(3)] in_int64_add64[of s N] by simp
  with assms show ?thesis
    by (simp add: getYamlErrorContextFromErr_def Sscanf_yaml_line Index_prefix Let_def)
qed

lemma getYaml_scan_failed:
  assumes "Sscanf errStr yaml_line_format = (n, scanErr, relLine)"
    and "scanErr \<noteq> None \<or> n \<noteq> 1"
  shows "getYamlErrorContextFromErr (Some errStr) startLine lines = Inr zero_YamlErrorContext"
  using assms by (auto simp: getYamlErrorContextFromErr_def)

lemma getYaml_out_of_bounds:
  assumes "Sscanf errStr yaml_line_format = (1, None, relLine)"
    and "int (length lines) < 2 ^ 63"
    and "add64 startLine relLine < 1 \<or> int (length lines) < add64 startLine relLine"
  shows "getYamlErrorContextFromErr (Some errStr) startLine lines = Inr zero_YamlErrorContext"
proof -
  let ?a = "add64 startLine relLine"
  have "\<not> (sub64 ?a 1 < int (length lines) \<and> sub64 ?a 1 \<ge> 0)"
  proof (cases "?a < 1")
    case True
    with sub64_one_low[of ?a] in_int64_add64[of startLine relLine]
    have "sub64 ?a 1 < 0 \<or> sub64 ?a 1 = 2 ^ 63 - 1" by simp
    with assms(2) show ?thesis by auto
  next
    case False
    with assms(3) have "int (length lines) < ?a" by simp
    moreover from False have "sub64 ?a 1 = ?a - 1"
      using sub64_one[of ?a] in_int64_add64[of startLine relLine] by simp
    ultimately show ?thesis by simp
  qed
  with assms(1) show ?thesis
    by (auto simp: getYamlErrorContextFromErr_def Let_def)
qed

lemma Sprintf_d_1: "Sprintf_d 1 = ''1''"
  by code_simp

lemma yaml_line_prefix_1:
  "yaml_line_prefix 1 = ''error converting YAML to JSON: yaml: line 1:''"
  by (simp add: yaml_line_prefix_def Sprintf_d_1)













text \<open>
  C4. For every error whose text does not match the pattern, that is, for which the scan
  against \<open>error converting YAML to JSON: yaml: line %d:\<close> returns an error or has not
  stored exactly one number, and for every start line and line list, the function returns
  the zero \<open>YamlErrorContext\<close> as a normal result: it neither panics nor reports an error.
\<close>

theorem getYamlErrorContextFromErr_no_match:
  assumes "Sscanf errStr yaml_line_format = (n, scanErr, relLine)"
    and "scanErr \<noteq> None \<or> n \<noteq> 1"
  shows "getYamlErrorContextFromErr (Some errStr) startLine lines = Inr zero_YamlErrorContext"
  using assms by (rule getYaml_scan_failed)

lemma Sscanf_other_text:
  "Sscanf ''yaml: unmarshal errors: cannot unmarshal !!str into int'' yaml_line_format
     = (0, Some InputMismatch, 0)"
  by code_simp

lemma Sscanf_missing_colon:
  "Sscanf ''error converting YAML to JSON: yaml: line 3 is bad'' yaml_line_format
     = (1, Some InputMismatch, 3)"
  by code_simp

theorem getYamlErrorContextFromErr_no_match_witness:
  "getYamlErrorContextFromErr (Some ''yaml: unmarshal errors: cannot unmarshal !!str into int'')
     1 [''a: b''] = Inr \<lparr>RelLine = 0, AbsLine = 0, Message = [], Context = []\<rparr> \<and>
   getYamlErrorContextFromErr (Some ''error converting YAML to JSON: yaml: line 3 is bad'')
     1 [''a: b'', ''c'', ''d'', ''e''] = Inr \<lparr>RelLine = 0, AbsLine = 0, Message = [], Context = []\<rparr>"
  using getYamlErrorContextFromErr_no_match[OF Sscanf_other_text, of 1 "[''a: b'']"]
    getYamlErrorContextFromErr_no_match[OF Sscanf_missing_colon, of 1 "[''a: b'', ''c'', ''d'', ''e'']"]
  by (simp add: zero_YamlErrorContext_def)

text \<open>
  C10. When the text of the error matches the pattern (the scan succeeds and stores the
  relative line) but the absolute line, start line plus relative line, is outside the
  bounds of the line list, the function returns the zero \<open>YamlErrorContext\<close>: none of
  \<open>RelLine\<close>, \<open>AbsLine\<close> and \<open>Message\<close> is kept. The length of a Go slice is an \<open>int\<close>.
\<close>

theorem getYamlErrorContextFromErr_out_of_bounds:
  assumes "Sscanf errStr yaml_line_format = (1, None, relLine)"
    and "int (length lines) < 2 ^ 63"
    and "add64 startLine relLine < 1 \<or> int (length lines) < add64 startLine relLine"
  shows "getYamlErrorContextFromErr (Some errStr) startLine lines = Inr zero_YamlErrorContext"
  using assms by (rule getYaml_out_of_bounds)

lemma Sscanf_line_2:
  "Sscanf ''error converting YAML to JSON: yaml: line 2: did not find expected key''
     yaml_line_format = (1, None, 2)"
  by code_simp

theorem getYamlErrorContextFromErr_out_of_bounds_witness:
  "getYamlErrorContextFromErr
     (Some ''error converting YAML to JSON: yaml: line 2: did not find expected key'')
     3 [''a: 1'', ''---'', ''b:'', '' - c''] = Inr \<lparr>RelLine = 0, AbsLine = 0, Message = [], Context = []\<rparr>"
proof -
  have s: "add64 3 2 = 5" by (simp add: add64_def wrap64_def)
  from getYamlErrorContextFromErr_out_of_bounds[OF Sscanf_line_2, of "[''a: 1'', ''---'', ''b:'', '' - c'']" 3]
  show ?thesis by (simp add: s zero_YamlErrorContext_def)
qed

text \<open>
  C6. On the three lines \<open>a: 1\<close>, \<open>---\<close>, \<open>b: [1,2\<close>, with the first document starting at
  line 1, \<open>moveToNextDoc\<close> moves the cursor to the separator, line 2; for an error
  \<open>error converting YAML to JSON: yaml: line 1: msg\<close> of the second document,
  \<open>getYamlErrorContextFromErr\<close> returns the absolute line 3, on which \<open>b: [1,2\<close> stands,
  and that line as the context.
\<close>

theorem locate_error_in_second_document:
  "moveToNextDoc [''a: 1'', ''---'', ''b: [1,2''] 1 = Inr 2 \<and>
   getYamlErrorContextFromErr
     (Some (''error converting YAML to JSON: yaml: line 1:'' @ msg)) 2
     [''a: 1'', ''---'', ''b: [1,2''] =
   Inr \<lparr>RelLine = 1, AbsLine = 3, Message = TrimSpace msg, Context = ''b: [1,2''\<rparr>"
proof -
  have a: "moveToNextDoc [''a: 1'', ''---'', ''b: [1,2''] 1 = Inr 2"
    by code_simp
  have s: "add64 2 1 = 3" by (simp add: add64_def wrap64_def)
  have "getYamlErrorContextFromErr (Some (yaml_line_prefix 1 @ msg)) 2
          [''a: 1'', ''---'', ''b: [1,2''] =
        Inr \<lparr>RelLine = 1, AbsLine = add64 2 1, Message = TrimSpace msg,
             Context = [''a: 1'', ''---'', ''b: [1,2''] ! nat (add64 2 1 - 1)\<rparr>"
    by (rule getYaml_canonical) (simp_all add: s)
  then have b: "getYamlErrorContextFromErr
     (Some (''error converting YAML to JSON: yaml: line 1:'' @ msg)) 2
     [''a: 1'', ''---'', ''b: [1,2''] =
   Inr \<lparr>RelLine = 1, AbsLine = 3, Message = TrimSpace msg, Context = ''b: [1,2''\<rparr>"
    unfolding yaml_line_prefix_1 s by simp
  from a b show ?thesis by (rule conjI)
qed

section \<open>Properties of convertToMap\<close>

text \<open>
  C2. For every map that the request converts to: when \<open>requiredResources\<close> is present
  and \<open>extraResources\<close> is absent, the result binds \<open>extraResources\<close> to the value of
  \<open>requiredResources\<close> and keeps \<open>requiredResources\<close>; when \<open>extraResources\<close> is
  present, its value is unchanged, whether \<open>requiredResources\<close> is present or not. No
  other key changes.
\<close>

theorem convertToMap_legacy_key:
  assumes "Marshal E req = Inr jReq" and "Unmarshal E jReq = Inr mReq"
  shows "\<exists>out. convertToMap E req = Inr out \<and>
           (mReq ''extraResources'' = None \<and> mReq ''requiredResources'' = Some r \<longrightarrow>
              out ''extraResources'' = Some r \<and> out ''requiredResources'' = Some r) \<and>
           (mReq ''extraResources'' = Some x \<longrightarrow>
              out ''extraResources'' = Some x \<and> out = mReq) \<and>
           (\<forall>k. k \<noteq> ''extraResources'' \<longrightarrow> out k = mReq k)"
  using assms by (auto simp: convertToMap_def split: option.splits)

theorem convertToMap_legacy_key_witness:
  "(\<exists>out. convertToMap
       (literal_templates ''a: 1'' None [''requiredResources'' \<mapsto> ''R''] (\<lambda>_ rsp. (Some rsp, None)) ())
       () = Inr out \<and>
     out ''extraResources'' = Some ''R'' \<and> out ''requiredResources'' = Some ''R'') \<and>
   (\<exists>out. convertToMap
       (literal_templates ''a: 1'' None
          [''requiredResources'' \<mapsto> ''R'', ''extraResources'' \<mapsto> ''X''] (\<lambda>_ rsp. (Some rsp, None)) ())
       () = Inr out \<and>
     out ''extraResources'' = Some ''X'' \<and> out ''requiredResources'' = Some ''R'')"
  using
    convertToMap_legacy_key[of "literal_templates ''a: 1'' None [''requiredResources'' \<mapsto> ''R''] (\<lambda>_ rsp. (Some rsp, None)) ()"
          "()" "''{}''" "[''requiredResources'' \<mapsto> ''R'']" "''R''" "''X''"]
    convertToMap_legacy_key[of "literal_templates ''a: 1'' None
             [''requiredResources'' \<mapsto> ''R'', ''extraResources'' \<mapsto> ''X''] (\<lambda>_ rsp. (Some rsp, None)) ()"
          "()" "''{}''" "[''requiredResources'' \<mapsto> ''R'', ''extraResources'' \<mapsto> ''X'']" "''R''" "''X''"]
  by (simp add: literal_templates_def, blast)

section \<open>Properties of safeApplyTemplateOptions and RunFunction\<close>

text \<open>
  C1. For every list of option names, applying the options lets no panic out:
  \<open>safeApplyTemplateOptions\<close> always returns normally; when the call that sets the options
  panics, it returns an error that carries the value of the panic, and otherwise nil.
  RunFunction then returns a response, with that error as the fatal result
  \<open>cannot apply template options: ...\<close>.
\<close>

theorem safeApplyTemplateOptions_contains_panic:
  "(\<exists>r. safeApplyTemplateOptions option templ options = Inr r) \<and>
   (option templ options = (t, Some p) \<longrightarrow>
      safeApplyTemplateOptions option templ options =
        Inr (t, Some (''panic occurred while applying template options: '' @ fmt_v p))) \<and>
   (option templ options = (t, None) \<longrightarrow>
      safeApplyTemplateOptions option templ options = Inr (t, None)) \<and>
   (GetInput E req = Inr inp \<and> NewTemplateSourceGetter E req inp = Inr src \<and>
    Parse E (Delims inp) src = Inr tmpl \<and> Options inp = Some options \<and>
    Option E tmpl options = (t, Some p) \<longrightarrow>
      RunFunction E req =
        Inr (Fatal (response_To E req)
               (''cannot apply template options: panic occurred while applying template options: ''
                  @ fmt_v p)))"
proof -
  have a: "\<exists>r. safeApplyTemplateOptions option templ options = Inr r"
    by (simp add: safeApplyTemplateOptions_def Let_def split: prod.splits)
  have b: "option templ options = (t, Some p) \<longrightarrow>
      safeApplyTemplateOptions option templ options =
        Inr (t, Some (''panic occurred while applying template options: '' @ fmt_v p))"
    by (simp add: safeApplyTemplateOptions_def)
  have c: "option templ options = (t, None) \<longrightarrow>
      safeApplyTemplateOptions option templ options = Inr (t, None)"
    by (simp add: safeApplyTemplateOptions_def)
  have d: "GetInput E req = Inr inp \<and> NewTemplateSourceGetter E req inp = Inr src \<and>
    Parse E (Delims inp) src = Inr tmpl \<and> Options inp = Some options \<and>
    Option E tmpl options = (t, Some p) \<longrightarrow>
      RunFunction E req =
        Inr (Fatal (response_To E req)
               (''cannot apply template options: panic occurred while applying template options: ''
                  @ fmt_v p))"
    by (simp add: RunFunction_def safeApplyTemplateOptions_def Wrap_def)
  from a b c d show ?thesis by blast
qed

theorem safeApplyTemplateOptions_contains_panic_witness:
  "RunFunction
     (literal_templates ''a: 1'' (Some [''missingkey=error'', ''bogus'']) Map.empty
        (\<lambda>_ rsp. (Some rsp, None)) ())
     () =
   Inr \<lparr>Results =
          [\<lparr>severity = SEVERITY_FATAL,
            message = ''cannot apply template options: panic occurred while applying template options: unrecognized option: bogus''\<rparr>],
        Desired = Some ()\<rparr> \<and>
   safeApplyTemplateOptions template_Option \<lparr>missingKey = mapInvalid, body = ''a: 1''\<rparr>
     [''missingkey=error'', ''bogus''] =
   Inr (\<lparr>missingKey = mapError, body = ''a: 1''\<rparr>,
        Some ''panic occurred while applying template options: unrecognized option: bogus'')"
  using
    safeApplyTemplateOptions_contains_panic
      [of template_Option "\<lparr>missingKey = mapInvalid, body = ''a: 1''\<rparr>"
          "[''missingkey=error'', ''bogus'']"
          "\<lparr>missingKey = mapError, body = ''a: 1''\<rparr>"
          "PanicString ''unrecognized option: bogus''"
          "literal_templates ''a: 1'' (Some [''missingkey=error'', ''bogus'']) Map.empty
             (\<lambda>_ rsp. (Some rsp, None)) ()"
          "()" "\<lparr>Delims = None, Options = Some [''missingkey=error'', ''bogus'']\<rparr>" "''a: 1''"
          "\<lparr>missingKey = mapInvalid, body = ''a: 1''\<rparr>"]
  by (simp add: literal_templates_def setOption_def Fatal_def)

text \<open>
  C7, as amended. When the rendered text decodes and the response has a desired state,
  RunFunction returns the response as the decoder left it. It reads neither
  \<open>gotemplating.fn.crossplane.io/ready\<close> nor
  \<open>gotemplating.fn.crossplane.io/composition-resource-name\<close>, sets no readiness from
  them, and strips neither of them from a resource.
\<close>

theorem RunFunction_returns_decoded_response:
  assumes "GetInput E req = Inr inp"
    and "NewTemplateSourceGetter E req inp = Inr src"
    and "Parse E (Delims inp) src = Inr tmpl"
    and "(case Options inp of None \<Rightarrow> (tmpl, None) | Some options \<Rightarrow> Option E tmpl options)
           = (tmpl', None)"
    and "convertToMap E req = Inr reqMap"
    and "Execute E tmpl' reqMap = Inr data"
    and "Decode E data (response_To E req) = (Some rsp', None)"
    and "Desired rsp' = Some d"
  shows "RunFunction E req = Inr rsp'"
  using assms
  by (auto simp: RunFunction_def safeApplyTemplateOptions_def
      split: option.splits sum.splits prod.splits)

lemma decode_plain:
  "YAMLOrJSONDecoder_Decode yaml_path_at_examples plain_manifest
     \<lparr>Results = [], Desired = Some \<lparr>Resources = []\<rparr>\<rparr> =
   (Some \<lparr>Results = [],
          Desired = Some \<lparr>Resources =
            [(''bucket'', \<lparr>resource = Some (JObject [(''kind'', JString ''Bucket'')]),
                           ready = READY_UNSPECIFIED\<rparr>)]\<rparr>\<rparr>, None)"
  by code_simp

theorem RunFunction_returns_decoded_response_witness:
  "RunFunction
     (literal_templates plain_manifest (Some [''missingkey=error'']) Map.empty
        (YAMLOrJSONDecoder_Decode yaml_path_at_examples) \<lparr>Resources = []\<rparr>)
     () =
   Inr \<lparr>Results = [],
        Desired = Some \<lparr>Resources =
            [(''bucket'', \<lparr>resource = Some (JObject [(''kind'', JString ''Bucket'')]),
                           ready = READY_UNSPECIFIED\<rparr>)]\<rparr>\<rparr>"
  using RunFunction_returns_decoded_response
    [of "literal_templates plain_manifest (Some [''missingkey=error'']) Map.empty
           (YAMLOrJSONDecoder_Decode yaml_path_at_examples) \<lparr>Resources = []\<rparr>"
        "()" "\<lparr>Delims = None, Options = Some [''missingkey=error'']\<rparr>" plain_manifest
        "\<lparr>missingKey = mapInvalid, body = plain_manifest\<rparr>"
        "\<lparr>missingKey = mapError, body = plain_manifest\<rparr>" Map.empty plain_manifest
        "\<lparr>Results = [],
          Desired = Some \<lparr>Resources =
            [(''bucket'', \<lparr>resource = Some (JObject [(''kind'', JString ''Bucket'')]),
                           ready = READY_UNSPECIFIED\<rparr>)]\<rparr>\<rparr>"
        "\<lparr>Resources =
            [(''bucket'', \<lparr>resource = Some (JObject [(''kind'', JString ''Bucket'')]),
                           ready = READY_UNSPECIFIED\<rparr>)]\<rparr>"]
  by (simp add: literal_templates_def setOption_def convertToMap_def decode_plain)

text \<open>
  C7 as stated fails: the rendered text \<open>annotated_manifest\<close> decodes to the resource
  \<open>bucket\<close>, whose body carries \<open>gotemplating.fn.crossplane.io/ready: True\<close>;
  RunFunction returns it with the annotation in place and the readiness unspecified.
\<close>

theorem RunFunction_keeps_ready_annotation:
  "RunFunction
     (literal_templates annotated_manifest None Map.empty
        (YAMLOrJSONDecoder_Decode yaml_path_at_examples) \<lparr>Resources = []\<rparr>)
     () =
   Inr \<lparr>Results = [],
        Desired = Some \<lparr>Resources =
          [(''bucket'',
            \<lparr>resource = Some (JObject
               [(''kind'', JString ''Bucket''),
                (''metadata'', JObject
                   [(''annotations'', JObject
                      [(''gotemplating.fn.crossplane.io/ready'', JString ''True'')])])]),
             ready = READY_UNSPECIFIED\<rparr>)]\<rparr>\<rparr>"
  by code_simp

text \<open>
  C8, as amended. When decoding fails, the fatal result of RunFunction is the wrapped
  error of the decoder, \<open>cannot decode manifest: ...\<close>, and nothing else: RunFunction
  does not call \<open>getYamlErrorContextFromErr\<close>, and no line number or line of the rendered
  text is added.
\<close>

theorem RunFunction_decode_failure:
  assumes "GetInput E req = Inr inp"
    and "NewTemplateSourceGetter E req inp = Inr src"
    and "Parse E (Delims inp) src = Inr tmpl"
    and "(case Options inp of None \<Rightarrow> (tmpl, None) | Some options \<Rightarrow> Option E tmpl options)
           = (tmpl', None)"
    and "convertToMap E req = Inr reqMap"
    and "Execute E tmpl' reqMap = Inr data"
    and "Decode E data (response_To E req) = (Some rsp', Some err)"
  shows "RunFunction E req = Inr (Fatal rsp' (''cannot decode manifest: '' @ err))"
  using assms
  by (auto simp: RunFunction_def safeApplyTemplateOptions_def Wrap_def
      split: option.splits sum.splits prod.splits)

lemma decode_invalid:
  "YAMLOrJSONDecoder_Decode yaml_path_at_examples invalid_manifest
     \<lparr>Results = [], Desired = Some \<lparr>Resources = []\<rparr>\<rparr> =
   (Some \<lparr>Results = [], Desired = Some \<lparr>Resources = []\<rparr>\<rparr>, Some invalid_manifest_error)"
  by code_simp

theorem RunFunction_decode_failure_witness:
  "RunFunction
     (literal_templates invalid_manifest None Map.empty
        (YAMLOrJSONDecoder_Decode yaml_path_at_examples) \<lparr>Resources = []\<rparr>)
     () =
   Inr \<lparr>Results =
          [\<lparr>severity = SEVERITY_FATAL,
            message = ''cannot decode manifest: error converting YAML to JSON: yaml: line 2: mapping values are not allowed in this context''\<rparr>],
        Desired = Some \<lparr>Resources = []\<rparr>\<rparr>"
  using RunFunction_decode_failure
    [of "literal_templates invalid_manifest None Map.empty
           (YAMLOrJSONDecoder_Decode yaml_path_at_examples) \<lparr>Resources = []\<rparr>"
        "()" "\<lparr>Delims = None, Options = None\<rparr>" invalid_manifest
        "\<lparr>missingKey = mapInvalid, body = invalid_manifest\<rparr>"
        "\<lparr>missingKey = mapInvalid, body = invalid_manifest\<rparr>" Map.empty invalid_manifest
        "\<lparr>Results = [], Desired = Some \<lparr>Resources = []\<rparr>\<rparr>" invalid_manifest_error]
  by (simp add: literal_templates_def convertToMap_def decode_invalid Fatal_def
      invalid_manifest_error_def)

text \<open>
  C8 as stated fails on the rendered text \<open>invalid_manifest\<close>: decoding fails with an
  error of line 2, \<open>getYamlErrorContextFromErr\<close> on that error and the lines of that
  text gives a context that is not empty, for the start line 0 as for the start line 1,
  and the fatal result of RunFunction holds the wrapped error only: neither line of the
  text occurs in it.
\<close>

theorem RunFunction_omits_error_context:
  "Split_newline invalid_manifest = [''a: 1'', ''b: c: d'', ''e: 2''] \<and>
   RunFunction
     (literal_templates invalid_manifest None Map.empty
        (YAMLOrJSONDecoder_Decode yaml_path_at_examples) \<lparr>Resources = []\<rparr>)
     () =
   Inr \<lparr>Results =
          [\<lparr>severity = SEVERITY_FATAL,
            message = ''cannot decode manifest: error converting YAML to JSON: yaml: line 2: mapping values are not allowed in this context''\<rparr>],
        Desired = Some \<lparr>Resources = []\<rparr>\<rparr> \<and>
   getYamlErrorContextFromErr (Some invalid_manifest_error) 0 (Split_newline invalid_manifest) =
     Inr \<lparr>RelLine = 2, AbsLine = 2, Message = ''mapping values are not allowed in this context'',
          Context = ''b: c: d''\<rparr> \<and>
   getYamlErrorContextFromErr (Some invalid_manifest_error) 1 (Split_newline invalid_manifest) =
     Inr \<lparr>RelLine = 2, AbsLine = 3, Message = ''mapping values are not allowed in this context'',
          Context = ''e: 2''\<rparr> \<and>
   Index ''cannot decode manifest: error converting YAML to JSON: yaml: line 2: mapping values are not allowed in this context''
     ''b: c: d'' = - 1 \<and>
   Index ''cannot decode manifest: error converting YAML to JSON: yaml: line 2: mapping values are not allowed in this context''
     ''e: 2'' = - 1"
  by code_simp

end
